theory Spec2Isabelle
  imports Complex_Main "HOL-Library.Word"
begin

unbundle bit_operations_syntax

section \<open>Obstacle depth pipeline of \<^verbatim>\<open>obstacle_depth.py\<close>\<close>

text \<open>
  The development embeds the frame loop of \<^verbatim>\<open>main\<close> in \<^verbatim>\<open>src/obstacle_depth.py\<close>:
  the preprocessing of a depth frame, the per-box distance estimate, the alert chain and
  the camera life cycle around them.

  Conventions of the embedding.
  \<^item> Depth and confidence samples are exact rationals. Every finite \<^verbatim>\<open>float32\<close> is a
    rational; rounding of intermediate results, NaN and infinities are not represented.
  \<^item> A numpy matrix is a list of rows. An exception is a value of \<open>error\<close>.
  \<^item> \<^verbatim>\<open>np.percentile\<close>, \<^verbatim>\<open>np.median\<close> and \<^verbatim>\<open>np.clip\<close> are library code; they are
    written out after their documented default behaviour. \<^verbatim>\<open>cv2.medianBlur\<close>,
    \<^verbatim>\<open>cv2.applyColorMap\<close> and the detector are parameters (record \<open>ext\<close>).
  \<^item> Line 167 of the source ends in a stray token \<^verbatim>\<open>s\<close> after the call of
    \<^verbatim>\<open>cv2.medianBlur\<close>. The functions below read the statement without it; the run
    of the whole file, where the token decides, is \<open>script\<close>.
  \<^item> Of the console output only the two camera failure reports and the report line of
    each processed detection (line 247, kept in structured form) are represented; the
    other prints of the loop format floats with \<^verbatim>\<open>repr\<close> and are left out, as are
    the writes to the video sink.
\<close>

subsection \<open>Errors and observable actions\<close>

datatype error = TypeError | ZeroDivisionError

datatype action =
    Print string
  | Report int "rat option"
  | Say string
  | EngineSay string
  | RunAndWait
  | CamStop
  | CamClose
  | OutRelease

text \<open>The four outcomes of the \<^verbatim>\<open>if/elif/elif\<close> chain of lines 231--245, named as in
  the specification; \<open>NoAlert\<close> is the fall-through.\<close>

datatype AlertTier = NoAlert | PersonWarning | ObstacleWarning | CriticalStop

subsection \<open>Constants of the source\<close>

definition MAX_DISTANCE :: int where "MAX_DISTANCE = 4000"

definition CONF_THR :: rat where "CONF_THR = 30"

definition MARGIN_MM :: rat where "MARGIN_MM = 250"

subsection \<open>Python primitives\<close>

text \<open>\<^verbatim>\<open>int(x)\<close> on a float truncates towards zero.\<close>

definition py_int :: "rat \<Rightarrow> int" where
  "py_int x = (if 0 \<le> x then \<lfloor>x\<rfloor> else \<lceil>x\<rceil>)"

text \<open>Ordering comparisons of a possibly absent number with a number: Python 3 raises
  \<^verbatim>\<open>TypeError\<close> for \<^verbatim>\<open>None < 250\<close>.\<close>

fun py_lt :: "rat option \<Rightarrow> rat \<Rightarrow> error + bool" where
  "py_lt None b = Inl TypeError"
| "py_lt (Some a) b = Inr (a < b)"

fun py_ge :: "rat option \<Rightarrow> rat \<Rightarrow> error + bool" where
  "py_ge None b = Inl TypeError"
| "py_ge (Some a) b = Inr (b \<le> a)"

text \<open>\<^verbatim>\<open>a and b\<close>: the right operand is evaluated only when the left one is true.\<close>

fun py_and :: "error + bool \<Rightarrow> error + bool \<Rightarrow> error + bool" where
  "py_and (Inl e) b = Inl e"
| "py_and (Inr False) b = Inr False"
| "py_and (Inr True) b = b"

definition digit_char :: "nat \<Rightarrow> char" where
  "digit_char d = ''0123456789'' ! (d mod 10)"

fun dec_str :: "nat \<Rightarrow> string" where
  "dec_str n = (if n < 10 then [digit_char n] else dec_str (n div 10) @ [digit_char (n mod 10)])"

declare dec_str.simps [simp del]

text \<open>\<^verbatim>\<open>str(i)\<close> of an integer, as \<^verbatim>\<open>print\<close> shows it.\<close>

definition str_int :: "int \<Rightarrow> string" where
  "str_int i = (if i < 0 then ''-'' @ dec_str (nat (- i)) else dec_str (nat i))"

text \<open>The format \<^verbatim>\<open>{x:.0f}\<close>: the magnitude is rounded to an integer, halves to even,
  and printed in decimal after the sign. Formatting \<^verbatim>\<open>None\<close> with it raises.\<close>

definition round_half_even :: "rat \<Rightarrow> int" where
  "round_half_even x =
     (let f = \<lfloor>x\<rfloor>; r = x - of_int f
      in if r < 1 / 2 then f else if 1 / 2 < r then f + 1 else if even f then f else f + 1)"

definition fmt0f :: "rat \<Rightarrow> string" where
  "fmt0f x = (if x < 0 then ''-'' @ dec_str (nat (round_half_even (- x)))
              else dec_str (nat (round_half_even x)))"

fun py_fmt0f :: "rat option \<Rightarrow> error + string" where
  "py_fmt0f None = Inl TypeError"
| "py_fmt0f (Some x) = Inr (fmt0f x)"

subsection \<open>numpy reductions\<close>

text \<open>\<^verbatim>\<open>np.percentile(a, q)\<close> with the default linear method: on the sorted data the
  virtual index is \<open>(n - 1) * q / 100\<close>, and the result interpolates between the two
  neighbouring order statistics. The program calls it on non-empty data only.\<close>

definition percentile :: "rat list \<Rightarrow> rat \<Rightarrow> rat" where
  "percentile a q =
     (let s = sort a; n = length s;
          virt = of_nat (n - 1) * (q / 100);
          prev = nat \<lfloor>virt\<rfloor>;
          nxt = min (prev + 1) (n - 1);
          g = virt - of_nat prev
      in s ! prev + (s ! nxt - s ! prev) * g)"

text \<open>\<^verbatim>\<open>np.median(a)\<close>: the middle order statistic, or the mean of the two middle ones.\<close>

definition median :: "rat list \<Rightarrow> rat" where
  "median a =
     (let s = sort a; n = length s
      in if odd n then s ! (n div 2) else (s ! (n div 2 - 1) + s ! (n div 2)) / 2)"

subsection \<open>Distance estimate (lines 205--225)\<close>

text \<open>\<open>valid\<close> is \<^verbatim>\<open>roi_d[mask]\<close> with \<^verbatim>\<open>mask = (roi_d > 0) & (roi_c >= CONF_THR)\<close>:
  the depths of the region, row by row, whose own depth is positive and whose confidence
  reaches the threshold.\<close>

definition valid :: "rat list list \<Rightarrow> rat list list \<Rightarrow> rat list" where
  "valid roi_d roi_c =
     map fst (filter (\<lambda>(d, c). 0 < d \<and> CONF_THR \<le> c) (concat (map2 zip roi_d roi_c)))"

definition obj_depths :: "rat list \<Rightarrow> rat \<Rightarrow> rat list" where
  "obj_depths vs margin = filter (\<lambda>v. v \<le> percentile vs 5 + margin) vs"

definition dist_cm :: "rat list \<Rightarrow> rat \<Rightarrow> rat option" where
  "dist_cm vs margin =
     (if length vs = 0 then None
      else let d_min = percentile vs 5;
               objs = obj_depths vs margin;
               dist_mm = (if length objs = 0 then d_min else median objs)
           in Some (dist_mm * (1 / 10)))"

subsection \<open>Alert chain (lines 231--245)\<close>

text \<open>The chain tests the person band, then the obstacle band, then the stop band. The
  person alert goes to \<^verbatim>\<open>say\<close> (espeak), the other two to the speech engine followed by
  \<^verbatim>\<open>runAndWait\<close>.\<close>

definition alert :: "int \<Rightarrow> rat option \<Rightarrow> error + (AlertTier \<times> action list)" where
  "alert cls_id d =
     (case py_and (Inr (cls_id = 0)) (py_and (py_lt d 250) (py_ge d 130)) of
        Inl e \<Rightarrow> Inl e
      | Inr True \<Rightarrow>
          (case py_fmt0f d of
             Inl e \<Rightarrow> Inl e
           | Inr s \<Rightarrow> Inr (PersonWarning, [Say (''Person ahead at '' @ s @ '' centimeters'')]))
      | Inr False \<Rightarrow>
          (case py_and (Inr (cls_id \<noteq> 0)) (py_and (py_lt d 150) (py_ge d 45)) of
             Inl e \<Rightarrow> Inl e
           | Inr True \<Rightarrow>
               (case py_fmt0f d of
                  Inl e \<Rightarrow> Inl e
                | Inr s \<Rightarrow>
                    Inr (ObstacleWarning,
                         [EngineSay (''Obstacle detected ahead at distance '' @ s @ '' centimeters''),
                          RunAndWait]))
           | Inr False \<Rightarrow>
               (case py_lt d 45 of
                  Inl e \<Rightarrow> Inl e
                | Inr True \<Rightarrow> Inr (CriticalStop, [EngineSay ''Stop, obstacle very close'', RunAndWait])
                | Inr False \<Rightarrow> Inr (NoAlert, []))))"

subsection \<open>Frames, detections and regions of interest\<close>

text \<open>A frame carries the depth matrix (millimetres) and the confidence matrix, both of
  the camera's resolution. A detection carries the float corner coordinates, class and
  score that the detector returns.\<close>

type_synonym matrix = "rat list list"

record DepthData =
  depth_data :: matrix
  confidence_data :: matrix

record Box =
  xyxy :: "rat \<times> rat \<times> rat \<times> rat"
  cls :: rat
  conf_det :: rat

text \<open>\<^verbatim>\<open>H, W = depth_buf.shape\<close>.\<close>

definition shape :: "'a list list \<Rightarrow> int \<times> int" where
  "shape m = (int (length m), (case m of [] \<Rightarrow> 0 | r # _ \<Rightarrow> int (length r)))"

text \<open>\<^verbatim>\<open>a[i:j]\<close>: a negative bound counts from the end, and both bounds are cut to the
  length.\<close>

definition slice_index :: "nat \<Rightarrow> int \<Rightarrow> nat" where
  "slice_index n i = (if i < 0 then nat (max 0 (int n + i)) else min n (nat i))"

definition py_slice :: "'a list \<Rightarrow> int \<Rightarrow> int \<Rightarrow> 'a list" where
  "py_slice xs i j =
     (let a = slice_index (length xs) i; b = slice_index (length xs) j
      in take (b - a) (drop a xs))"

text \<open>\<^verbatim>\<open>m[y1:y2, x1:x2]\<close>.\<close>

definition roi :: "'a list list \<Rightarrow> int \<Rightarrow> int \<Rightarrow> int \<Rightarrow> int \<Rightarrow> 'a list list" where
  "roi m y1 y2 x1 x2 = map (\<lambda>row. py_slice row x1 x2) (py_slice m y1 y2)"

text \<open>Lines 190--196: the corners are truncated to integers and clamped to the frame.\<close>

definition int_xyxy :: "Box \<Rightarrow> int \<times> int \<times> int \<times> int" where
  "int_xyxy box = (case xyxy box of (a, b, c, d) \<Rightarrow> (py_int a, py_int b, py_int c, py_int d))"

definition clamp_box :: "int \<Rightarrow> int \<Rightarrow> int \<times> int \<times> int \<times> int \<Rightarrow> int \<times> int \<times> int \<times> int" where
  "clamp_box W H b =
     (case b of (x1, y1, x2, y2) \<Rightarrow>
        (max 0 (min (W - 1) x1), max 0 (min (H - 1) y1),
         max 0 (min (W - 1) x2), max 0 (min (H - 1) y2)))"

definition clamped :: "matrix \<Rightarrow> Box \<Rightarrow> int \<times> int \<times> int \<times> int" where
  "clamped depth_buf box = (case shape depth_buf of (H, W) \<Rightarrow> clamp_box W H (int_xyxy box))"

text \<open>The test of line 198 that makes the loop \<^verbatim>\<open>continue\<close>.\<close>

definition degenerate :: "int \<times> int \<times> int \<times> int \<Rightarrow> bool" where
  "degenerate b = (case b of (x1, y1, x2, y2) \<Rightarrow> x2 \<le> x1 \<or> y2 \<le> y1)"

text \<open>Lines 202--207 for a clamped box: the valid depths of the region.\<close>

definition box_valid :: "matrix \<Rightarrow> matrix \<Rightarrow> int \<times> int \<times> int \<times> int \<Rightarrow> rat list" where
  "box_valid depth_buf confidence_buf b =
     (case b of (x1, y1, x2, y2) \<Rightarrow>
        valid (roi depth_buf y1 y2 x1 x2) (roi confidence_buf y1 y2 x1 x2))"

text \<open>The estimate of one detection: \<open>None\<close> when the loop skips it, otherwise the value
  of \<^verbatim>\<open>dist_cm\<close>, itself absent when the region has no valid sample.\<close>

definition estimate :: "matrix \<Rightarrow> matrix \<Rightarrow> Box \<Rightarrow> rat option option" where
  "estimate depth_buf confidence_buf box =
     (let b = clamped depth_buf box
      in if degenerate b then None
         else Some (dist_cm (box_valid depth_buf confidence_buf b) MARGIN_MM))"

text \<open>The loop over the detections (lines 189--247). An exception of the alert chain
  leaves the loop; what was emitted before it stays emitted.\<close>

fun boxes_loop :: "matrix \<Rightarrow> matrix \<Rightarrow> Box list \<Rightarrow> action list \<times> error option" where
  "boxes_loop depth_buf confidence_buf [] = ([], None)"
| "boxes_loop depth_buf confidence_buf (box # boxes) =
     (case estimate depth_buf confidence_buf box of
        None \<Rightarrow> boxes_loop depth_buf confidence_buf boxes
      | Some d \<Rightarrow>
          (case alert (py_int (cls box)) d of
             Inl e \<Rightarrow> ([], Some e)
           | Inr (tier, acts) \<Rightarrow>
               (case boxes_loop depth_buf confidence_buf boxes of
                  (rest, r) \<Rightarrow> (acts @ Report (py_int (cls box)) d # rest, r))))"

subsection \<open>Preprocessing over a store (lines 150--178)\<close>

text \<open>The float matrices of the loop body live in a store, because line 158 assigns into one
  of them in place: an address is an index into the list of allocated matrices, and a
  new matrix takes the next free address. The \<^verbatim>\<open>uint8\<close> and colour images are only ever
  produced by calls that return a fresh array, and are plain values.\<close>

type_synonym addr = nat

type_synonym heap = "matrix list"

type_synonym u8img = "8 word list list"

type_synonym bgrimg = "(8 word \<times> 8 word \<times> 8 word) list list"

definition alloc :: "heap \<Rightarrow> matrix \<Rightarrow> heap \<times> addr" where
  "alloc h m = (h @ [m], length h)"

text \<open>The collaborators whose code is outside the repository.\<close>

record ext =
  medianBlur :: "u8img \<Rightarrow> u8img"
  applyColorMap :: "u8img \<Rightarrow> bgrimg"
  model :: "bgrimg \<Rightarrow> Box list"

text \<open>The new contents of \<^verbatim>\<open>depth\<close> after \<^verbatim>\<open>depth[conf < CONF_THR] = 0\<close>.\<close>

definition mask_assign :: "matrix \<Rightarrow> matrix \<Rightarrow> rat \<Rightarrow> matrix" where
  "mask_assign depth conf thr =
     map2 (\<lambda>dr cr. map2 (\<lambda>d c. if c < thr then 0 else d) dr cr) depth conf"

text \<open>\<^verbatim>\<open>np.clip(a, lo, hi)\<close> is \<^verbatim>\<open>minimum(hi, maximum(a, lo))\<close>.\<close>

definition np_clip :: "matrix \<Rightarrow> rat \<Rightarrow> rat \<Rightarrow> matrix" where
  "np_clip m lo hi = map (map (\<lambda>x. min hi (max x lo))) m"

text \<open>\<^verbatim>\<open>(depth * (255.0 / MAX_MM)).astype(np.uint8)\<close>; the cast truncates.\<close>

definition normalize :: "matrix \<Rightarrow> int \<Rightarrow> u8img" where
  "normalize depth MAX_MM = map (map (\<lambda>x. word_of_int (py_int (x * (255 / of_int MAX_MM))))) depth"

text \<open>\<^verbatim>\<open>(conf >= CONF_THR).astype(np.uint8)\<close>.\<close>

definition conf_mask :: "matrix \<Rightarrow> rat \<Rightarrow> u8img" where
  "conf_mask conf thr = map (map (\<lambda>c. if thr \<le> c then 1 else 0)) conf"

text \<open>\<^verbatim>\<open>cv2.cvtColor(mask * 255, cv2.COLOR_GRAY2BGR)\<close> and \<^verbatim>\<open>cv2.bitwise_and\<close>.\<close>

definition gray2bgr :: "u8img \<Rightarrow> bgrimg" where
  "gray2bgr m = map (map (\<lambda>w. (w, w, w))) m"

definition bitwise_and :: "bgrimg \<Rightarrow> bgrimg \<Rightarrow> bgrimg" where
  "bitwise_and a b =
     map2 (\<lambda>ra rb. map2 (\<lambda>(b1, g1, r1) (b2, g2, r2). (b1 AND b2, g1 AND g2, r1 AND r2)) ra rb) a b"

text \<open>Lines 150--178. \<open>depth_buf\<close> and \<open>confidence_buf\<close> are the addresses of the frame's
  matrices. The result is the store after the statements and the image handed to the
  detector; \<^verbatim>\<open>255.0 / MAX_MM\<close> raises when the range read back from the camera is 0.\<close>

definition preprocess :: "ext \<Rightarrow> heap \<Rightarrow> addr \<Rightarrow> addr \<Rightarrow> int \<Rightarrow> error + (heap \<times> bgrimg)" where
  "preprocess E h depth_buf confidence_buf r =
     (let MAX_MM = r;
          (h1, depth_copy) = alloc h (h ! depth_buf);
          (h2, depth) = alloc h1 (h1 ! depth_copy);
          (h3, conf_copy) = alloc h2 (h2 ! confidence_buf);
          (h4, conf) = alloc h3 (h3 ! conf_copy);
          h5 = h4[depth := mask_assign (h4 ! depth) (h4 ! conf) CONF_THR];
          (h6, depth') = alloc h5 (np_clip (h5 ! depth) 0 (of_int MAX_MM))
      in if MAX_MM = 0 then Inl ZeroDivisionError
         else
           let depth_norm = normalize (h6 ! depth') MAX_MM;
               depth_norm' = medianBlur E depth_norm;
               result_image = applyColorMap E depth_norm';
               mask = conf_mask (h6 ! conf) CONF_THR;
               mask' = medianBlur E mask;
               mask_3 = gray2bgr (map (map (\<lambda>w. w * 255)) mask')
           in Inr (h6, bitwise_and result_image mask_3))"

text \<open>One pass of the loop body for a frame that arrived: the frame's matrices are placed
  in the store, preprocessed, and the detections of the image are walked with
  \<^verbatim>\<open>depth_buf\<close> and \<^verbatim>\<open>confidence_buf\<close> read back from the store (lines 202--203).\<close>

definition frame_cycle :: "ext \<Rightarrow> int \<Rightarrow> DepthData \<Rightarrow> action list \<times> error option" where
  "frame_cycle E r frame =
     (let (h0, depth_buf) = alloc [] (depth_data frame);
          (h1, confidence_buf) = alloc h0 (confidence_data frame)
      in case preprocess E h1 depth_buf confidence_buf r of
           Inl e \<Rightarrow> ([], Some e)
         | Inr (h2, result_image) \<Rightarrow>
             boxes_loop (h2 ! depth_buf) (h2 ! confidence_buf) (model E result_image))"

subsection \<open>Camera life cycle (lines 96--109 and 135--283)\<close>

text \<open>What the camera answers: the codes of \<^verbatim>\<open>open\<close> and \<^verbatim>\<open>start\<close> and the range read
  back by \<^verbatim>\<open>getControl\<close>.\<close>

record camera =
  open_ret :: int
  start_ret :: int
  range_ret :: int

text \<open>One turn of \<^verbatim>\<open>while True\<close>: the frame request (absent on a timeout) with the key
  read by \<^verbatim>\<open>waitKey\<close>, or a keyboard interrupt.\<close>

datatype cycle = Cycle "DepthData option" int | KeyboardInterrupt

datatype loop_end = Quit | Interrupted | Uncaught error

text \<open>The loop consumes the turns it is given. \<open>None\<close> means that the turns ran out while
  the loop was still running: it has not returned.\<close>

fun run_loop :: "ext \<Rightarrow> int \<Rightarrow> cycle list \<Rightarrow> (action list \<times> loop_end) option" where
  "run_loop E r [] = None"
| "run_loop E r (KeyboardInterrupt # cs) = Some ([], Interrupted)"
| "run_loop E r (Cycle f key # cs) =
     (case (case f of None \<Rightarrow> ([], None) | Some frame \<Rightarrow> frame_cycle E r frame) of
        (acts, Some e) \<Rightarrow> Some (acts, Uncaught e)
      | (acts, None) \<Rightarrow>
          if key = 113 then Some (acts, Quit)
          else (case run_loop E r cs of
                  None \<Rightarrow> None
                | Some (rest, en) \<Rightarrow> Some (acts @ rest, en)))"

text \<open>How the interpreter ends: \<^verbatim>\<open>main\<close> returned, or an exception reached the top.\<close>

datatype exit = Returned | Traceback error

definition main :: "ext \<Rightarrow> camera \<Rightarrow> cycle list \<Rightarrow> (action list \<times> exit) option" where
  "main E cam cs =
     (if open_ret cam \<noteq> 0
      then Some ([Print (''Failed to open camera. Error code: '' @ str_int (open_ret cam))], Returned)
      else if start_ret cam \<noteq> 0
      then Some ([Print (''Failed to start camera. Error code: '' @ str_int (start_ret cam)), CamClose],
                 Returned)
      else (case run_loop E (range_ret cam) cs of
              None \<Rightarrow> None
            | Some (acts, Quit) \<Rightarrow> Some (acts @ [CamStop, CamClose, OutRelease], Returned)
            | Some (acts, Interrupted) \<Rightarrow>
                Some (acts @ [CamStop, CamClose, OutRelease, Print ''Exiting...''], Returned)
            | Some (acts, Uncaught e) \<Rightarrow> Some (acts, Traceback e)))"







subsection \<open>The specification's reading of the estimator and the classifier\<close>

text \<open>The estimate as the specification words it (section 4.2, steps 5--8): \<open>dMin\<close> is
  the 5th percentile of the valid depths, the cluster holds the valid depths up to
  \<open>dMin + marginMm\<close>, and the result is the cluster's median, or \<open>dMin\<close> for an empty
  cluster, times 0.1.\<close>

definition spec_distance_cm :: "rat list \<Rightarrow> rat \<Rightarrow> rat" where
  "spec_distance_cm validDepths marginMm =
     (let dMin = percentile validDepths 5;
          cluster = filter (\<lambda>v. v \<le> dMin + marginMm) validDepths
      in (if cluster = [] then dMin else median cluster) * (1 / 10))"

text \<open>The tier table of section 4.3 in the order the specification gives it, first match
  wins: the stop band, the person band, the obstacle band, otherwise nothing.\<close>

definition classify_spec :: "int \<Rightarrow> rat \<Rightarrow> AlertTier \<times> action list" where
  "classify_spec classId distanceCm =
     (if distanceCm < 45 then (CriticalStop, [EngineSay ''Stop, obstacle very close'', RunAndWait])
      else if classId = 0 \<and> 130 \<le> distanceCm \<and> distanceCm < 250
      then (PersonWarning, [Say (''Person ahead at '' @ fmt0f distanceCm @ '' centimeters'')])
      else if classId \<noteq> 0 \<and> 45 \<le> distanceCm \<and> distanceCm < 150
      then (ObstacleWarning,
            [EngineSay (''Obstacle detected ahead at distance '' @ fmt0f distanceCm @ '' centimeters''),
             RunAndWait])
      else (NoAlert, []))"

subsection \<open>Notions used in the statements\<close>

text \<open>Both matrices are rectangular with the same number of rows and columns, the
  invariant of a depth frame.\<close>

definition same_shape :: "matrix \<Rightarrow> matrix \<Rightarrow> bool" where
  "same_shape d c =
     (length c = length d \<and>
      (\<forall>r \<in> set d. int (length r) = snd (shape d)) \<and>
      (\<forall>r \<in> set c. int (length r) = snd (shape d)))"

text \<open>The test of line 206 on one pair of a depth and its confidence.\<close>

definition valid_pixel :: "rat \<times> rat \<Rightarrow> bool" where
  "valid_pixel p = (0 < fst p \<and> CONF_THR \<le> snd p)"

text \<open>The image handed to the detector (lines 161--178) as a function of the masked depth
  copy, the confidence copy and the range.\<close>

definition visual :: "ext \<Rightarrow> matrix \<Rightarrow> matrix \<Rightarrow> int \<Rightarrow> bgrimg" where
  "visual E masked conf r =
     bitwise_and (applyColorMap E (medianBlur E (normalize (np_clip masked 0 (of_int r)) r)))
       (gray2bgr (map (map (\<lambda>w. w * 255)) (medianBlur E (conf_mask conf CONF_THR))))"

subsection \<open>Sample inputs\<close>

text \<open>A 3 by 3 frame whose confidences are all below the threshold, and a person
  detection over its upper left corner.\<close>

definition dark_frame :: DepthData where
  "dark_frame = \<lparr>depth_data = replicate 3 (replicate 3 1000),
                  confidence_data = replicate 3 (replicate 3 10)\<rparr>"

definition person_box :: Box where
  "person_box = \<lparr>xyxy = (0, 0, 2, 2), cls = 0, conf_det = 9 / 10\<rparr>"

text \<open>A 2 by 6 frame whose first row holds the depths of the specification's scenario,
  all confident, and a person detection over the first five of them.\<close>

definition near_frame :: DepthData where
  "near_frame = \<lparr>depth_data = [[1400, 1420, 1430, 1450, 1460, 0], [0, 0, 0, 0, 0, 0]],
                  confidence_data = replicate 2 (replicate 6 100)\<rparr>"

definition wide_box :: Box where
  "wide_box = \<lparr>xyxy = (0, 0, 5, 1), cls = 0, conf_det = 9 / 10\<rparr>"

text \<open>The degenerate detection of the specification's scenario.\<close>

definition thin_box :: Box where
  "thin_box = \<lparr>xyxy = (50, 50, 50, 80), cls = 0, conf_det = 9 / 10\<rparr>"

text \<open>Collaborators for the samples: the blur leaves the image as it is, the colour map
  is grey, and the detector reports the one person detection.\<close>

definition person_ext :: ext where
  "person_ext = \<lparr>medianBlur = (\<lambda>m. m), applyColorMap = gray2bgr, model = (\<lambda>img. [person_box])\<rparr>"

definition ok_camera :: camera where
  "ok_camera = \<lparr>open_ret = 0, start_ret = 0, range_ret = 4000\<rparr>"



text \<open>A 1 by 2 frame: the first sample is beyond the range, the second has a low
  confidence.\<close>

definition tiny_frame :: DepthData where
  "tiny_frame = \<lparr>depth_data = [[5000, 800]], confidence_data = [[100, 10]]\<rparr>"

text \<open>A 3 by 3 frame with one sample of low confidence, in row 0 and column 1.\<close>

definition mixed_frame :: DepthData where
  "mixed_frame = \<lparr>depth_data = [[5000, 800, 900], [700, 600, 650], [1, 2, 3]],
                   confidence_data = [[100, 10, 100], [100, 100, 100], [100, 100, 100]]\<rparr>"

section \<open>Properties\<close>

subsection \<open>The alert chain\<close>

lemma alert_Some: "alert cls_id (Some d) = Inr (classify_spec cls_id d)"
  by (cases "cls_id = 0") (auto simp: alert_def classify_spec_def)

lemma alert_None: "alert cls_id None = Inl TypeError"
  by (cases "cls_id = 0") (simp_all add: alert_def)

text \<open>
  Claim C1. The specification asks that an absent distance estimate yields the \<open>None\<close>
  tier for every class id, with no alert and no exception. The source sets
  \<^verbatim>\<open>dist_cm = None\<close> for a region without a valid sample and then compares it with a
  number in the first condition it evaluates, for class 0 in the person test and for any
  other class in the obstacle test. So the chain raises \<^verbatim>\<open>TypeError\<close> for every class
  id. On the dark sample frame the estimate is absent, the loop over the detections ends
  with the exception, and it reaches the top of the program: only a keyboard interrupt
  is caught around the frame loop.
\<close>

theorem absent_estimate_raises:
  "alert cls_id None = Inl TypeError
   \<and> estimate (depth_data dark_frame) (confidence_data dark_frame) person_box = Some None
   \<and> boxes_loop (depth_data dark_frame) (confidence_data dark_frame) [person_box] = ([], Some TypeError)
   \<and> main person_ext ok_camera [Cycle (Some dark_frame) 113] = Some ([], Traceback TypeError)"
proof -
  have "estimate (depth_data dark_frame) (confidence_data dark_frame) person_box = Some None"
    by code_simp
  moreover have "boxes_loop (depth_data dark_frame) (confidence_data dark_frame) [person_box]
      = ([], Some TypeError)"
    by code_simp
  moreover have "main person_ext ok_camera [Cycle (Some dark_frame) 113] = Some ([], Traceback TypeError)"
    by code_simp
  ultimately show ?thesis by (simp add: alert_None)
qed

text \<open>
  Claim C3. A detection of any class id closer than 45 cm yields the stop alert with the
  message "Stop, obstacle very close"; a person at 40 cm yields the stop alert, not the
  person warning. The source tests the stop band last, after the two class bands; the
  three bands do not overlap, so on every class id and distance the chain returns what
  the specification's table returns with the stop band tested first.
\<close>

theorem stop_band_precedence:
  "alert cls_id (Some d) = Inr (classify_spec cls_id d)
   \<and> (d < 45 \<longrightarrow>
        alert cls_id (Some d) = Inr (CriticalStop, [EngineSay ''Stop, obstacle very close'', RunAndWait]))
   \<and> alert 0 (Some 40) = Inr (CriticalStop, [EngineSay ''Stop, obstacle very close'', RunAndWait])"
  by (simp add: alert_Some classify_spec_def)

theorem stop_band_precedence_witness:
  "(40::rat) < 45
   \<and> alert 0 (Some 40) = Inr (CriticalStop, [EngineSay ''Stop, obstacle very close'', RunAndWait])"
  using stop_band_precedence [of 0 40] by linarith

text \<open>
  Claim C6. For a class id other than 0, a distance of exactly 45 cm yields the obstacle
  warning (the lower bound is inclusive) and a distance of exactly 150 cm yields no
  alert (the upper bound is exclusive).
\<close>

theorem obstacle_band_boundaries:
  "cls_id \<noteq> 0 \<Longrightarrow>
     alert cls_id (Some 45) =
       Inr (ObstacleWarning,
            [EngineSay ''Obstacle detected ahead at distance 45 centimeters'', RunAndWait])
     \<and> alert cls_id (Some 150) = Inr (NoAlert, [])"
  by (simp add: alert_def fmt0f_def round_half_even_def dec_str.simps digit_char_def)

theorem obstacle_band_boundaries_witness:
  "(3::int) \<noteq> 0
   \<and> alert 3 (Some 45) =
       Inr (ObstacleWarning,
            [EngineSay ''Obstacle detected ahead at distance 45 centimeters'', RunAndWait])
   \<and> alert 3 (Some 150) = Inr (NoAlert, [])"
  using obstacle_band_boundaries [of 3] by simp

subsection \<open>The distance estimate\<close>

lemma member_le_percentile:
  assumes "vs \<noteq> []" "0 \<le> q" "q \<le> 100"
  shows "\<exists>v \<in> set vs. v \<le> percentile vs q"
proof -
  define s where "s = sort vs"
  define n where "n = length s"
  define virt :: rat where "virt = of_nat (n - 1) * (q / 100)"
  define prev where "prev = nat \<lfloor>virt\<rfloor>"
  define nxt where "nxt = min (prev + 1) (n - 1)"
  have n: "0 < n" using assms by (simp add: n_def s_def)
  have v0: "0 \<le> virt" using assms by (simp add: virt_def)
  have "q / 100 \<le> 1" using assms by simp
  then have "virt \<le> of_nat (n - 1) * 1" unfolding virt_def
    by (intro mult_left_mono) simp_all
  then have "virt \<le> of_nat (n - 1)" by simp
  then have "\<lfloor>virt\<rfloor> \<le> int (n - 1)" by (simp add: floor_le_iff)
  then have p1: "prev \<le> n - 1" by (simp add: prev_def)
  have pn: "prev \<le> nxt" "nxt < n" using p1 n by (simp_all add: nxt_def)
  have "(of_nat prev :: rat) = of_int \<lfloor>virt\<rfloor>" using v0 by (simp add: prev_def)
  then have g: "0 \<le> virt - of_nat prev" by simp
  have "sorted s" by (simp add: s_def)
  then have "s ! prev \<le> s ! nxt" using pn n_def by (simp add: sorted_nth_mono)
  then have "0 \<le> (s ! nxt - s ! prev) * (virt - of_nat prev)" using g by simp
  moreover have "percentile vs q = s ! prev + (s ! nxt - s ! prev) * (virt - of_nat prev)"
    by (simp only: percentile_def Let_def s_def n_def virt_def prev_def nxt_def)
  ultimately have "s ! prev \<le> percentile vs q" by simp
  moreover have "s ! prev \<in> set s" using pn n_def by simp
  then have "s ! prev \<in> set vs" by (simp add: s_def)
  ultimately show ?thesis by blast
qed

lemma dist_cm_spec: "vs \<noteq> [] \<Longrightarrow> dist_cm vs m = Some (spec_distance_cm vs m)"
  by (simp add: dist_cm_def spec_distance_cm_def obj_depths_def Let_def)

text \<open>
  Claim C2. For every box that the loop keeps and whose set of valid depths \<open>vs\<close> is not
  empty, the estimate is the specification's value: the median of the valid depths up to
  the 5th percentile plus the margin (or the percentile itself for an empty cluster),
  times 0.1. On the sample frame the valid depths of the box are 1400, 1420, 1430, 1450
  and 1460 mm, the margin is 250 mm, the estimate is 143 cm, and for class 0 the chain
  says "Person ahead at 143 centimeters".
\<close>

theorem estimate_cluster_median:
  "(\<not> degenerate (clamped depth_buf box)
      \<and> box_valid depth_buf confidence_buf (clamped depth_buf box) = vs \<and> vs \<noteq> []
    \<longrightarrow> estimate depth_buf confidence_buf box = Some (Some (spec_distance_cm vs MARGIN_MM)))
   \<and> MARGIN_MM = 250
   \<and> box_valid (depth_data near_frame) (confidence_data near_frame)
        (clamped (depth_data near_frame) wide_box) = [1400, 1420, 1430, 1450, 1460]
   \<and> estimate (depth_data near_frame) (confidence_data near_frame) wide_box = Some (Some 143)
   \<and> alert 0 (Some 143) = Inr (PersonWarning, [Say ''Person ahead at 143 centimeters''])"
proof -
  have "box_valid (depth_data near_frame) (confidence_data near_frame)
        (clamped (depth_data near_frame) wide_box) = [1400, 1420, 1430, 1450, 1460]"
    by code_simp
  moreover have "estimate (depth_data near_frame) (confidence_data near_frame) wide_box = Some (Some 143)"
    by code_simp
  moreover have "alert 0 (Some 143) = Inr (PersonWarning, [Say ''Person ahead at 143 centimeters''])"
    by code_simp
  moreover have "MARGIN_MM = 250" by (simp add: MARGIN_MM_def)
  ultimately show ?thesis by (simp add: estimate_def Let_def dist_cm_spec)
qed

theorem estimate_cluster_median_witness:
  "\<not> degenerate (clamped (depth_data near_frame) wide_box)
   \<and> box_valid (depth_data near_frame) (confidence_data near_frame)
        (clamped (depth_data near_frame) wide_box) = [1400, 1420, 1430, 1450, 1460]
   \<and> [1400, 1420, 1430, 1450, 1460 :: rat] \<noteq> []
   \<and> estimate (depth_data near_frame) (confidence_data near_frame) wide_box
       = Some (Some (spec_distance_cm [1400, 1420, 1430, 1450, 1460] MARGIN_MM))
   \<and> spec_distance_cm [1400, 1420, 1430, 1450, 1460] MARGIN_MM = 143"
proof -
  have d: "\<not> degenerate (clamped (depth_data near_frame) wide_box)" by code_simp
  have s: "spec_distance_cm [1400, 1420, 1430, 1450, 1460] MARGIN_MM = 143" by code_simp
  show ?thesis
    using d s estimate_cluster_median [of "depth_data near_frame" wide_box "confidence_data near_frame"
        "[1400, 1420, 1430, 1450, 1460]"]
    by simp
qed

text \<open>
  Claim C10. For a non-empty list of valid depths and a margin that is not negative, the
  cluster of depths up to the 5th percentile plus the margin is not empty, because some
  valid depth is at most the percentile; so the fallback to the percentile is never
  taken and the estimate is the cluster's median times 0.1.
\<close>

theorem cluster_nonempty:
  assumes "vs \<noteq> []" "0 \<le> margin"
  shows "obj_depths vs margin \<noteq> []
         \<and> dist_cm vs margin = Some (median (obj_depths vs margin) * (1 / 10))"
proof -
  obtain v where v: "v \<in> set vs" "v \<le> percentile vs 5"
    using member_le_percentile [of vs 5] assms by auto
  then have "v \<in> set (obj_depths vs margin)" using assms by (simp add: obj_depths_def)
  then have ne: "obj_depths vs margin \<noteq> []" by auto
  then show ?thesis using assms by (simp add: dist_cm_def Let_def)
qed

theorem cluster_nonempty_witness:
  "[1400, 1420, 1430, 1450, 1460 :: rat] \<noteq> [] \<and> (0::rat) \<le> 250
   \<and> obj_depths [1400, 1420, 1430, 1450, 1460] 250 \<noteq> []
   \<and> dist_cm [1400, 1420, 1430, 1450, 1460] 250
       = Some (median (obj_depths [1400, 1420, 1430, 1450, 1460] 250) * (1 / 10))"
  using cluster_nonempty [of "[1400, 1420, 1430, 1450, 1460]" 250] by simp

subsection \<open>Skipped detections\<close>

lemma boxes_loop_skip:
  "estimate D C box = None \<Longrightarrow> boxes_loop D C (pre @ box # post) = boxes_loop D C (pre @ post)"
  by (induction pre) (auto split: option.splits sum.splits prod.splits)

lemma py_int_of_int [simp]: "py_int (of_int k) = k"
  by (simp add: py_int_def)

lemma clamp_range: "0 < n \<Longrightarrow> 0 \<le> max 0 (min (n - 1) x) \<and> max 0 (min (n - 1) x) \<le> n - (1::int)"
  by simp

lemma clamp_box_range:
  assumes "0 < W" "0 < H" "clamp_box W H b = (x1, y1, x2, y2)"
  shows "0 \<le> x1 \<and> x1 \<le> W - 1 \<and> 0 \<le> x2 \<and> x2 \<le> W - 1
         \<and> 0 \<le> y1 \<and> y1 \<le> H - 1 \<and> 0 \<le> y2 \<and> y2 \<le> H - 1"
proof -
  obtain a1 b1 a2 b2 where b: "b = (a1, b1, a2, b2)" by (cases b)
  have e: "x1 = max 0 (min (W - 1) a1)" "x2 = max 0 (min (W - 1) a2)"
    "y1 = max 0 (min (H - 1) b1)" "y2 = max 0 (min (H - 1) b2)"
    using assms(3) by (simp_all add: b clamp_box_def)
  have "0 \<le> x1 \<and> x1 \<le> W - 1" unfolding e by (rule clamp_range [OF assms(1)])
  moreover have "0 \<le> x2 \<and> x2 \<le> W - 1" unfolding e by (rule clamp_range [OF assms(1)])
  moreover have "0 \<le> y1 \<and> y1 \<le> H - 1" unfolding e by (rule clamp_range [OF assms(2)])
  moreover have "0 \<le> y2 \<and> y2 \<le> H - 1" unfolding e by (rule clamp_range [OF assms(2)])
  ultimately show ?thesis by blast
qed

lemma thin_degenerate:
  assumes "xyxy box = (50, 50, 50, 80)"
  shows "degenerate (clamped depth_buf box)"
proof -
  have "int_xyxy box = (50, 50, 50, 80)"
    using assms py_int_of_int [of 50] py_int_of_int [of 80] by (simp add: int_xyxy_def)
  then show ?thesis
    by (cases "shape depth_buf") (simp add: clamped_def clamp_box_def degenerate_def)
qed

text \<open>
  Claim C7. The corners of every detection are clamped to \<open>[0, W-1]\<close> and \<open>[0, H-1]\<close>.
  A detection whose clamped box has \<open>x2 \<le> x1\<close> or \<open>y2 \<le> y1\<close> is skipped: it has no
  estimate and emits nothing, and the loop over the frame's detections gives what it
  gives without that detection, wherever in the sequence it stands. The box
  (50, 50, 50, 80) is skipped in every frame.
\<close>

theorem degenerate_box_skipped:
  "(0 < W \<and> 0 < H \<and> clamp_box W H b = (x1, y1, x2, y2) \<longrightarrow>
      0 \<le> x1 \<and> x1 \<le> W - 1 \<and> 0 \<le> x2 \<and> x2 \<le> W - 1
      \<and> 0 \<le> y1 \<and> y1 \<le> H - 1 \<and> 0 \<le> y2 \<and> y2 \<le> H - 1)
   \<and> (degenerate (clamped depth_buf box) \<longrightarrow>
        estimate depth_buf confidence_buf box = None
        \<and> boxes_loop depth_buf confidence_buf (pre @ box # post)
            = boxes_loop depth_buf confidence_buf (pre @ post))
   \<and> (xyxy box = (50, 50, 50, 80) \<longrightarrow> degenerate (clamped depth_buf box))"
proof (intro conjI impI)
  assume d: "degenerate (clamped depth_buf box)"
  then show e: "estimate depth_buf confidence_buf box = None"
    by (simp add: estimate_def)
  then show "boxes_loop depth_buf confidence_buf (pre @ box # post)
      = boxes_loop depth_buf confidence_buf (pre @ post)"
    by (rule boxes_loop_skip)
next
  assume "xyxy box = (50, 50, 50, 80)"
  then show "degenerate (clamped depth_buf box)" by (rule thin_degenerate)
qed (use clamp_box_range in blast)+

theorem degenerate_box_skipped_witness:
  "(0::int) < 240 \<and> (0::int) < 180 \<and> clamp_box 240 180 (-3, 170, 300, 200) = (0, 170, 239, 179)
   \<and> xyxy thin_box = (50, 50, 50, 80)
   \<and> degenerate (clamped (depth_data near_frame) thin_box)
   \<and> estimate (depth_data near_frame) (confidence_data near_frame) thin_box = None
   \<and> boxes_loop (depth_data near_frame) (confidence_data near_frame) ([wide_box] @ thin_box # [wide_box])
       = boxes_loop (depth_data near_frame) (confidence_data near_frame) ([wide_box] @ [wide_box])"
proof -
  have c: "clamp_box 240 180 (-3, 170, 300, 200) = (0, 170, 239, 179)" by (simp add: clamp_box_def)
  have x: "xyxy thin_box = (50, 50, 50, 80)" by (simp add: thin_box_def)
  show ?thesis
    using c x degenerate_box_skipped [of 240 180 "(-3, 170, 300, 200)" 0 170 239 179
        "depth_data near_frame" thin_box "confidence_data near_frame" "[wide_box]" "[wide_box]"]
    by simp
qed

subsection \<open>Exit status\<close>




subsection \<open>Regions of interest and the absent estimate\<close>

lemma take_drop_upt:
  "j \<le> length xs \<Longrightarrow> take (j - i) (drop i xs) = map ((!) xs) [i..<j]"
  by (rule nth_equalityI) auto

lemma slice_upt:
  assumes "0 \<le> i" "i \<le> j" "j \<le> int (length xs)"
  shows "py_slice xs i j = map ((!) xs) [nat i..<nat j]"
proof -
  have "slice_index (length xs) i = nat i" "slice_index (length xs) j = nat j"
    using assms by (simp_all add: slice_index_def)
  moreover have "nat j \<le> length xs" using assms by simp
  ultimately show ?thesis by (simp add: py_slice_def take_drop_upt)
qed

lemma roi_upt:
  assumes rows: "\<forall>r \<in> set m. int (length r) = W"
    and y: "0 \<le> y1" "y1 \<le> y2" "y2 \<le> int (length m)"
    and x: "0 \<le> x1" "x1 \<le> x2" "x2 \<le> W"
  shows "roi m y1 y2 x1 x2 = map (\<lambda>y. map (\<lambda>x. m ! y ! x) [nat x1..<nat x2]) [nat y1..<nat y2]"
proof -
  have "py_slice (m ! k) x1 x2 = map ((!) (m ! k)) [nat x1..<nat x2]" if "k < nat y2" for k
  proof -
    have "k < length m" using that y by simp
    then have "int (length (m ! k)) = W" using rows by simp
    then show ?thesis using x by (simp add: slice_upt)
  qed
  then show ?thesis using y by (simp add: roi_def slice_upt)
qed

lemma valid_filter: "valid roi_d roi_c = map fst (filter valid_pixel (concat (map2 zip roi_d roi_c)))"
proof -
  have "(\<lambda>(d, c). 0 < d \<and> CONF_THR \<le> c) = valid_pixel" by (auto simp: valid_pixel_def)
  then show ?thesis by (simp add: valid_def)
qed

lemma map2_zip_upt:
  "map2 zip (map (\<lambda>y. map (f y) xs) ys) (map (\<lambda>y. map (g y) xs) ys)
     = map (\<lambda>y. map (\<lambda>x. (f y x, g y x)) xs) ys"
  by (induction ys) (simp_all add: zip_map_map zip_same_conv_map)

lemma box_valid_upt:
  assumes "same_shape D C" "snd (shape D) = W"
    and y: "0 \<le> y1" "y1 \<le> y2" "y2 \<le> int (length D)"
    and x: "0 \<le> x1" "x1 \<le> x2" "x2 \<le> W"
  shows "box_valid D C (x1, y1, x2, y2)
     = map fst (filter valid_pixel (concat (map (\<lambda>y. map (\<lambda>x. (D ! y ! x, C ! y ! x)) [nat x1..<nat x2])
                                        [nat y1..<nat y2])))"
proof -
  have rd: "\<forall>r \<in> set D. int (length r) = W" and rc: "\<forall>r \<in> set C. int (length r) = W"
    and l: "length C = length D"
    using assms(1,2) by (simp_all add: same_shape_def)
  have "roi D y1 y2 x1 x2 = map (\<lambda>y. map (\<lambda>x. D ! y ! x) [nat x1..<nat x2]) [nat y1..<nat y2]"
    using rd y x by (rule roi_upt)
  moreover have "roi C y1 y2 x1 x2 = map (\<lambda>y. map (\<lambda>x. C ! y ! x) [nat x1..<nat x2]) [nat y1..<nat y2]"
    using rc y x l by (intro roi_upt) simp_all
  ultimately show ?thesis
    by (simp only: box_valid_def prod.case valid_filter map2_zip_upt)
qed

lemma clamp_lt_pos: "max 0 (min (n - 1) a) < max 0 (min (n - 1) b) \<Longrightarrow> 0 < (n::int)"
  by (simp add: max_def min_def split: if_splits)

lemma shape_pos:
  assumes "clamped D box = (x1, y1, x2, y2)" "\<not> degenerate (x1, y1, x2, y2)"
  shows "0 < fst (shape D) \<and> 0 < snd (shape D)"
proof -
  obtain H W where s: "shape D = (H, W)" by (cases "shape D")
  obtain a1 b1 a2 b2 where b: "int_xyxy box = (a1, b1, a2, b2)" by (cases "int_xyxy box")
  have e: "x1 = max 0 (min (W - 1) a1)" "x2 = max 0 (min (W - 1) a2)"
    "y1 = max 0 (min (H - 1) b1)" "y2 = max 0 (min (H - 1) b2)"
    using assms(1) by (simp_all add: clamped_def s b clamp_box_def)
  have lt: "x1 < x2" "y1 < y2" using assms(2) by (simp_all add: degenerate_def)
  have "0 < W" using lt(1) unfolding e by (rule clamp_lt_pos)
  moreover have "0 < H" using lt(2) unfolding e by (rule clamp_lt_pos)
  ultimately show ?thesis by (simp add: s)
qed

lemma clamped_in_frame:
  assumes "clamped D box = (x1, y1, x2, y2)" "\<not> degenerate (x1, y1, x2, y2)"
  shows "0 \<le> x1 \<and> x1 < x2 \<and> x2 < snd (shape D) \<and> 0 \<le> y1 \<and> y1 < y2 \<and> y2 < int (length D)"
proof -
  obtain H W where s: "shape D = (H, W)" by (cases "shape D")
  have p: "0 < W" "0 < H" using shape_pos [OF assms] by (simp_all add: s)
  have "clamp_box W H (int_xyxy box) = (x1, y1, x2, y2)"
    using assms(1) by (simp add: clamped_def s)
  from clamp_box_range [OF p this]
  have r: "0 \<le> x1" "x2 \<le> W - 1" "0 \<le> y1" "y2 \<le> H - 1" by simp_all
  have H: "H = int (length D)" using s by (simp add: shape_def)
  have "x1 < x2" "y1 < y2" using assms(2) by (simp_all add: degenerate_def)
  then show ?thesis using r H by (simp add: s)
qed

lemma valid_empty_iff:
  "map fst (filter valid_pixel (concat (map (\<lambda>y. map (\<lambda>x. (D ! y ! x, C ! y ! x)) [a..<b]) [c..<d]))) = []
   \<longleftrightarrow> (\<forall>y x. c \<le> y \<and> y < d \<and> a \<le> x \<and> x < b \<longrightarrow> \<not> valid_pixel (D ! y ! x, C ! y ! x))"
  by (auto simp: filter_empty_conv)

text \<open>
  Claim C5. For a frame whose two matrices have the same rectangular shape and a
  detection that the loop keeps, with clamped corners \<open>(x1, y1, x2, y2)\<close>, the loop
  computes exactly one estimate, and that estimate is absent exactly when no pixel of
  the extracted region, rows \<open>y1 \<le> y < y2\<close> and columns \<open>x1 \<le> x < x2\<close>, has a
  positive depth together with a confidence of at least the threshold.
\<close>

theorem estimate_none_iff:
  assumes "same_shape depth_buf confidence_buf"
    and "clamped depth_buf box = (x1, y1, x2, y2)"
    and "\<not> degenerate (x1, y1, x2, y2)"
  shows "\<exists>e. estimate depth_buf confidence_buf box = Some e \<and>
           (e = None \<longleftrightarrow>
              \<not> (\<exists>y x. y1 \<le> y \<and> y < y2 \<and> x1 \<le> x \<and> x < x2
                     \<and> 0 < depth_buf ! nat y ! nat x \<and> CONF_THR \<le> confidence_buf ! nat y ! nat x))"
proof -
  let ?vs = "box_valid depth_buf confidence_buf (x1, y1, x2, y2)"
  have r: "0 \<le> x1" "x1 < x2" "x2 < snd (shape depth_buf)" "0 \<le> y1" "y1 < y2" "y2 < int (length depth_buf)"
    using clamped_in_frame [OF assms(2,3)] by simp_all
  have v: "?vs = map fst (filter valid_pixel (concat (map (\<lambda>y. map (\<lambda>x. (depth_buf ! y ! x, confidence_buf ! y ! x))
                 [nat x1..<nat x2]) [nat y1..<nat y2])))"
  proof (rule box_valid_upt [OF assms(1) refl])
    show "0 \<le> y1" "0 \<le> x1" by (fact r)+
    show "y1 \<le> y2" "x1 \<le> x2" using r by simp_all
    show "y2 \<le> int (length depth_buf)" using r(6) by simp
    show "x2 \<le> snd (shape depth_buf)" using r(3) by simp
  qed
  have e: "estimate depth_buf confidence_buf box = Some (dist_cm ?vs MARGIN_MM)"
    using assms(2,3) by (simp add: estimate_def)
  have "dist_cm ?vs MARGIN_MM = None \<longleftrightarrow> ?vs = []"
    by (simp add: dist_cm_def Let_def)
  also have "\<dots> \<longleftrightarrow> (\<forall>y x. nat y1 \<le> y \<and> y < nat y2 \<and> nat x1 \<le> x \<and> x < nat x2
        \<longrightarrow> \<not> valid_pixel (depth_buf ! y ! x, confidence_buf ! y ! x))"
    unfolding v by (rule valid_empty_iff)
  also have "\<dots> \<longleftrightarrow> \<not> (\<exists>y x. y1 \<le> y \<and> y < y2 \<and> x1 \<le> x \<and> x < x2
                     \<and> 0 < depth_buf ! nat y ! nat x \<and> CONF_THR \<le> confidence_buf ! nat y ! nat x)"
    (is "?L \<longleftrightarrow> \<not> ?R")
  proof
    assume L: ?L
    show "\<not> ?R"
    proof
      assume ?R
      then obtain y x where yx: "y1 \<le> y" "y < y2" "x1 \<le> x" "x < x2"
        "0 < depth_buf ! nat y ! nat x" "CONF_THR \<le> confidence_buf ! nat y ! nat x" by blast
      have "nat y1 \<le> nat y \<and> nat y < nat y2 \<and> nat x1 \<le> nat x \<and> nat x < nat x2"
        using yx(1-4) r by linarith
      with L have "\<not> valid_pixel (depth_buf ! nat y ! nat x, confidence_buf ! nat y ! nat x)" by blast
      then show False using yx(5,6) by (simp add: valid_pixel_def)
    qed
  next
    assume nR: "\<not> ?R"
    show ?L
    proof (intro allI impI)
      fix y x :: nat
      assume a: "nat y1 \<le> y \<and> y < nat y2 \<and> nat x1 \<le> x \<and> x < nat x2"
      then have "y1 \<le> int y \<and> int y < y2 \<and> x1 \<le> int x \<and> int x < x2" using r by linarith
      with nR have "\<not> (0 < depth_buf ! nat (int y) ! nat (int x) \<and> CONF_THR \<le> confidence_buf ! nat (int y) ! nat (int x))"
        by blast
      then show "\<not> valid_pixel (depth_buf ! y ! x, confidence_buf ! y ! x)" by (simp add: valid_pixel_def)
    qed
  qed
  finally show ?thesis using e by simp
qed

theorem estimate_none_iff_witness:
  "same_shape (depth_data dark_frame) (confidence_data dark_frame)
   \<and> clamped (depth_data dark_frame) person_box = (0, 0, 2, 2)
   \<and> \<not> degenerate (0, 0, 2, 2)
   \<and> estimate (depth_data dark_frame) (confidence_data dark_frame) person_box = Some None
   \<and> \<not> (\<exists>y x. (0::int) \<le> y \<and> y < 2 \<and> (0::int) \<le> x \<and> x < 2
            \<and> 0 < depth_data dark_frame ! nat y ! nat x
            \<and> CONF_THR \<le> confidence_data dark_frame ! nat y ! nat x)
   \<and> same_shape (depth_data near_frame) (confidence_data near_frame)
   \<and> clamped (depth_data near_frame) wide_box = (0, 0, 5, 1)
   \<and> \<not> degenerate (0, 0, 5, 1)
   \<and> estimate (depth_data near_frame) (confidence_data near_frame) wide_box = Some (Some 143)
   \<and> (\<exists>y x. (0::int) \<le> y \<and> y < 1 \<and> (0::int) \<le> x \<and> x < 5
            \<and> 0 < depth_data near_frame ! nat y ! nat x
            \<and> CONF_THR \<le> confidence_data near_frame ! nat y ! nat x)"
proof -
  have s: "same_shape (depth_data dark_frame) (confidence_data dark_frame)" by code_simp
  have c: "clamped (depth_data dark_frame) person_box = (0, 0, 2, 2)" by code_simp
  have d: "\<not> degenerate (0, 0, 2, 2)" by (simp add: degenerate_def)
  have e: "estimate (depth_data dark_frame) (confidence_data dark_frame) person_box = Some None"
    by code_simp
  have s': "same_shape (depth_data near_frame) (confidence_data near_frame)" by code_simp
  have c': "clamped (depth_data near_frame) wide_box = (0, 0, 5, 1)" by code_simp
  have d': "\<not> degenerate (0, 0, 5, 1)" by (simp add: degenerate_def)
  have e': "estimate (depth_data near_frame) (confidence_data near_frame) wide_box = Some (Some 143)"
    by code_simp
  have A: "\<not> (\<exists>y x. (0::int) \<le> y \<and> y < 2 \<and> (0::int) \<le> x \<and> x < 2
            \<and> 0 < depth_data dark_frame ! nat y ! nat x
            \<and> CONF_THR \<le> confidence_data dark_frame ! nat y ! nat x)"
    using estimate_none_iff [OF s c d] e by fastforce
  have B: "\<exists>y x. (0::int) \<le> y \<and> y < 1 \<and> (0::int) \<le> x \<and> x < 5
            \<and> 0 < depth_data near_frame ! nat y ! nat x
            \<and> CONF_THR \<le> confidence_data near_frame ! nat y ! nat x"
  proof -
    from estimate_none_iff [OF s' c' d'] obtain e0
      where E: "estimate (depth_data near_frame) (confidence_data near_frame) wide_box = Some e0"
        and i: "e0 = None \<longleftrightarrow>
          \<not> (\<exists>y x. (0::int) \<le> y \<and> y < 1 \<and> (0::int) \<le> x \<and> x < 5
            \<and> 0 < depth_data near_frame ! nat y ! nat x
            \<and> CONF_THR \<le> confidence_data near_frame ! nat y ! nat x)"
      by blast
    have "Some e0 = Some (Some 143)" using E e' by (rule trans [OF sym])
    then have "e0 \<noteq> None" by (simp only: option.inject) simp
    then show ?thesis using i by blast
  qed
  show ?thesis
    by (intro conjI) (fact s c d e A s' c' d' e' B)+
qed

subsection \<open>The store during preprocessing\<close>

lemma preprocess_store:
  assumes "depth_buf < length h" "confidence_buf < length h" "r \<noteq> 0"
  shows "preprocess E h depth_buf confidence_buf r =
     Inr (h @ [h ! depth_buf, mask_assign (h ! depth_buf) (h ! confidence_buf) CONF_THR,
               h ! confidence_buf, h ! confidence_buf,
               np_clip (mask_assign (h ! depth_buf) (h ! confidence_buf) CONF_THR) 0 (of_int r)],
          visual E (mask_assign (h ! depth_buf) (h ! confidence_buf) CONF_THR) (h ! confidence_buf) r)"
  using assms
  by (simp add: preprocess_def alloc_def Let_def nth_append visual_def list_update_append)

lemma preprocess_zero: "preprocess E h depth_buf confidence_buf 0 = Inl ZeroDivisionError"
  by (simp add: preprocess_def alloc_def Let_def)

lemma frame_cycle_eq:
  "frame_cycle E r frame =
     (if r = 0 then ([], Some ZeroDivisionError)
      else boxes_loop (depth_data frame) (confidence_data frame)
             (model E (visual E (mask_assign (depth_data frame) (confidence_data frame) CONF_THR)
                                (confidence_data frame) r)))"
proof (cases "r = 0")
  case True
  then show ?thesis by (simp add: frame_cycle_def alloc_def preprocess_zero)
next
  case False
  have "preprocess E [depth_data frame, confidence_data frame] 0 (Suc 0) r =
      Inr ([depth_data frame, confidence_data frame] @
           [depth_data frame, mask_assign (depth_data frame) (confidence_data frame) CONF_THR,
            confidence_data frame, confidence_data frame,
            np_clip (mask_assign (depth_data frame) (confidence_data frame) CONF_THR) 0 (of_int r)],
           visual E (mask_assign (depth_data frame) (confidence_data frame) CONF_THR) (confidence_data frame) r)"
    using preprocess_store [of 0 "[depth_data frame, confidence_data frame]" "Suc 0" r E] False by simp
  then show ?thesis using False by (simp add: frame_cycle_def alloc_def)
qed

text \<open>
  Claim C8. Preprocessing works on copies: every matrix that was in the store before is
  unchanged afterwards, in particular the frame's depth and confidence matrices, while
  the masked depths are written into a copy and the clipped depths into a further new
  matrix. The loop over the detections then reads the frame's own raw matrices: for a
  range other than 0 the pass over a frame is the detection loop on the raw depth and
  confidence of that frame.
\<close>

theorem preprocessing_preserves_frame:
  "(depth_buf < length h \<and> confidence_buf < length h
      \<and> preprocess E h depth_buf confidence_buf r = Inr (h', img)
    \<longrightarrow> take (length h) h' = h
        \<and> h' ! depth_buf = h ! depth_buf \<and> h' ! confidence_buf = h ! confidence_buf
        \<and> h' ! (length h + 1) = mask_assign (h ! depth_buf) (h ! confidence_buf) CONF_THR
        \<and> h' ! (length h + 4) = np_clip (h' ! (length h + 1)) 0 (of_int r))
   \<and> (r \<noteq> 0 \<longrightarrow>
        (\<exists>img. frame_cycle E r frame
                 = boxes_loop (depth_data frame) (confidence_data frame) (model E img)))"
proof (intro conjI impI)
  assume a: "depth_buf < length h \<and> confidence_buf < length h
      \<and> preprocess E h depth_buf confidence_buf r = Inr (h', img)"
  then have r: "r \<noteq> 0" using preprocess_zero [of E h depth_buf confidence_buf] by auto
  have h': "h' = h @ [h ! depth_buf, mask_assign (h ! depth_buf) (h ! confidence_buf) CONF_THR,
               h ! confidence_buf, h ! confidence_buf,
               np_clip (mask_assign (h ! depth_buf) (h ! confidence_buf) CONF_THR) 0 (of_int r)]"
    using a r preprocess_store [of depth_buf h confidence_buf r E] by simp
  show "take (length h) h' = h" by (simp add: h')
  show "h' ! depth_buf = h ! depth_buf" using a by (simp add: h' nth_append)
  show "h' ! confidence_buf = h ! confidence_buf" using a by (simp add: h' nth_append)
  show "h' ! (length h + 1) = mask_assign (h ! depth_buf) (h ! confidence_buf) CONF_THR"
    by (simp add: h' nth_append)
  show "h' ! (length h + 4) = np_clip (h' ! (length h + 1)) 0 (of_int r)"
    by (simp add: h' nth_append)
next
  assume "r \<noteq> 0"
  then show "\<exists>img. frame_cycle E r frame
                 = boxes_loop (depth_data frame) (confidence_data frame) (model E img)"
    by (auto simp: frame_cycle_eq)
qed

theorem preprocessing_preserves_frame_witness:
  "(0::nat) < length [depth_data tiny_frame, confidence_data tiny_frame]
   \<and> (1::nat) < length [depth_data tiny_frame, confidence_data tiny_frame]
   \<and> preprocess person_ext [depth_data tiny_frame, confidence_data tiny_frame] 0 1 4000
       = Inr ([[[5000, 800]], [[100, 10]], [[5000, 800]], [[5000, 0]], [[100, 10]], [[100, 10]],
               [[4000, 0]]],
              [[(255, 255, 255), (0, 0, 0)]])
   \<and> [[[5000, 800]], [[100, 10]], [[5000, 800]], [[5000, 0]], [[100, 10]], [[100, 10]],
        [[4000, 0 :: rat]]] ! 0 = [depth_data tiny_frame, confidence_data tiny_frame] ! 0
   \<and> [[[5000, 800]], [[100, 10]], [[5000, 800]], [[5000, 0]], [[100, 10]], [[100, 10]],
        [[4000, 0 :: rat]]] ! 1 = [depth_data tiny_frame, confidence_data tiny_frame] ! 1
   \<and> (4000::int) \<noteq> 0
   \<and> (\<exists>img. frame_cycle person_ext 4000 tiny_frame
         = boxes_loop (depth_data tiny_frame) (confidence_data tiny_frame) (model person_ext img))"
proof -
  have p: "preprocess person_ext [depth_data tiny_frame, confidence_data tiny_frame] 0 1 4000
       = Inr ([[[5000, 800]], [[100, 10]], [[5000, 800]], [[5000, 0]], [[100, 10]], [[100, 10]],
               [[4000, 0]]],
              [[(255, 255, 255), (0, 0, 0)]])"
    by code_simp
  show ?thesis
    using p preprocessing_preserves_frame
      [of 0 "[depth_data tiny_frame, confidence_data tiny_frame]" 1 person_ext 4000
          "[[[5000, 800]], [[100, 10]], [[5000, 800]], [[5000, 0]], [[100, 10]], [[100, 10]],
            [[4000, 0]]]"
          "[[(255, 255, 255), (0, 0, 0)]]" tiny_frame]
    by simp
qed

subsection \<open>Samples of low confidence\<close>

lemma mask_assign_nth:
  assumes "length C = length D" "y < length D" "length (C ! y) = length (D ! y)" "x < length (D ! y)"
  shows "mask_assign D C thr ! y ! x = (if C ! y ! x < thr then 0 else D ! y ! x)"
  using assms by (simp add: mask_assign_def)

lemma conf_mask_nth:
  assumes "y < length C" "x < length (C ! y)"
  shows "conf_mask C thr ! y ! x = (if thr \<le> C ! y ! x then 1 else 0)"
  using assms by (simp add: conf_mask_def)

lemma row_update_masked:
  assumes "cr ! x < (thr::rat)"
  shows "map2 (\<lambda>d c. if c < thr then 0 else d) ((dr::rat list)[x := v]) cr
       = map2 (\<lambda>d c. if c < thr then 0 else d) dr cr"
proof (rule nth_equalityI)
  show "length (map2 (\<lambda>d c. if c < thr then 0 else d) (dr[x := v]) cr)
      = length (map2 (\<lambda>d c. if c < thr then 0 else d) dr cr)" by simp
next
  fix i assume "i < length (map2 (\<lambda>d c. if c < thr then (0::rat) else d) (dr[x := v]) cr)"
  then have i: "i < length dr" "i < length cr" by simp_all
  show "map2 (\<lambda>d c. if c < thr then 0 else d) (dr[x := v]) cr ! i
      = map2 (\<lambda>d c. if c < thr then 0 else d) dr cr ! i"
    using i assms by (cases "i = x") simp_all
qed

lemma mask_assign_update:
  assumes "C ! y ! x < thr"
  shows "mask_assign (D[y := (D ! y)[x := v]]) C thr = mask_assign D C thr"
proof (rule nth_equalityI)
  show "length (mask_assign (D[y := (D ! y)[x := v]]) C thr) = length (mask_assign D C thr)"
    by (simp add: mask_assign_def)
next
  fix i assume "i < length (mask_assign (D[y := (D ! y)[x := v]]) C thr)"
  then have i: "i < length D" "i < length C" by (simp_all add: mask_assign_def)
  show "mask_assign (D[y := (D ! y)[x := v]]) C thr ! i = mask_assign D C thr ! i"
  proof (cases "i = y")
    case True
    then show ?thesis using i assms by (simp add: mask_assign_def row_update_masked)
  next
    case False
    then show ?thesis using i by (simp add: mask_assign_def)
  qed
qed

lemma shape_update: "shape (D[y := (D ! y)[x := v]]) = shape D"
proof (cases D)
  case Nil
  then show ?thesis by simp
next
  case (Cons r rs)
  then show ?thesis by (cases y) (simp_all add: shape_def)
qed

lemma same_shape_update:
  assumes "same_shape D C"
  shows "same_shape (D[y := (D ! y)[x := v]]) C"
proof -
  let ?D = "D[y := (D ! y)[x := v]]"
  have rd: "\<forall>r \<in> set D. int (length r) = snd (shape D)"
    and rc: "\<forall>r \<in> set C. int (length r) = snd (shape D)" and l: "length C = length D"
    using assms by (simp_all add: same_shape_def)
  have "int (length r) = snd (shape D)" if "r \<in> set ?D" for r
  proof -
    from that obtain i where i: "i < length D" "r = ?D ! i"
      by (auto simp: in_set_conv_nth)
    have "length r = length (D ! i)" using i by (cases "i = y") simp_all
    then show ?thesis using rd i(1) by simp
  qed
  then show ?thesis using rc l by (simp add: same_shape_def shape_update)
qed

lemma valid_row_cong:
  assumes "\<And>x. x \<in> set xs \<Longrightarrow> (valid_pixel (g' x) \<longleftrightarrow> valid_pixel (g x)) \<and> (valid_pixel (g x) \<longrightarrow> fst (g' x) = fst (g x))"
  shows "map fst (filter valid_pixel (map g' xs)) = map fst (filter valid_pixel (map g xs))"
  using assms by (induction xs) auto

lemma valid_concat_cong:
  assumes "\<And>y x. y \<in> set ys \<Longrightarrow> x \<in> set xs \<Longrightarrow>
             (valid_pixel (f' y x) \<longleftrightarrow> valid_pixel (f y x)) \<and> (valid_pixel (f y x) \<longrightarrow> fst (f' y x) = fst (f y x))"
  shows "map fst (filter valid_pixel (concat (map (\<lambda>y. map (f' y) xs) ys)))
       = map fst (filter valid_pixel (concat (map (\<lambda>y. map (f y) xs) ys)))"
  using assms
proof (induction ys)
  case Nil
  then show ?case by simp
next
  case (Cons y ys)
  have "map fst (filter valid_pixel (map (f' y) xs)) = map fst (filter valid_pixel (map (f y) xs))"
    by (rule valid_row_cong) (simp add: Cons.prems)
  moreover have "map fst (filter valid_pixel (concat (map (\<lambda>y. map (f' y) xs) ys)))
       = map fst (filter valid_pixel (concat (map (\<lambda>y. map (f y) xs) ys)))"
    by (rule Cons.IH) (simp add: Cons.prems)
  ultimately show ?case by simp
qed

lemma estimate_update:
  assumes s: "same_shape D C" and c: "C ! y ! x < CONF_THR"
    and y: "y < length D" and x: "x < length (D ! y)"
  shows "estimate (D[y := (D ! y)[x := v]]) C box = estimate D C box"
proof -
  let ?D = "D[y := (D ! y)[x := v]]"
  have cl: "clamped ?D box = clamped D box" by (simp add: clamped_def shape_update)
  show ?thesis
  proof (cases "degenerate (clamped D box)")
    case True
    then show ?thesis by (simp add: estimate_def cl)
  next
    case False
    obtain x1 y1 x2 y2 where b: "clamped D box = (x1, y1, x2, y2)" by (cases "clamped D box")
    have nd: "\<not> degenerate (x1, y1, x2, y2)" using False b by simp
    have r: "0 \<le> x1" "x1 < x2" "x2 < snd (shape D)" "0 \<le> y1" "y1 < y2" "y2 < int (length D)"
      using clamped_in_frame [OF b nd] by simp_all
    have v: "box_valid D C (x1, y1, x2, y2)
        = map fst (filter valid_pixel (concat (map (\<lambda>y. map (\<lambda>x. (D ! y ! x, C ! y ! x)) [nat x1..<nat x2])
             [nat y1..<nat y2])))"
    proof (rule box_valid_upt [OF s refl])
      show "0 \<le> y1" "0 \<le> x1" by (fact r)+
      show "y1 \<le> y2" "x1 \<le> x2" using r by simp_all
      show "y2 \<le> int (length D)" using r(6) by simp
      show "x2 \<le> snd (shape D)" using r(3) by simp
    qed
    have v': "box_valid ?D C (x1, y1, x2, y2)
        = map fst (filter valid_pixel (concat (map (\<lambda>y. map (\<lambda>x. (?D ! y ! x, C ! y ! x)) [nat x1..<nat x2])
             [nat y1..<nat y2])))"
    proof (rule box_valid_upt [OF same_shape_update [OF s] refl])
      show "0 \<le> y1" "0 \<le> x1" by (fact r)+
      show "y1 \<le> y2" "x1 \<le> x2" using r by simp_all
      show "y2 \<le> int (length ?D)" using r(6) by simp
      show "x2 \<le> snd (shape ?D)" using r(3) by (simp add: shape_update)
    qed
    have "box_valid ?D C (x1, y1, x2, y2) = box_valid D C (x1, y1, x2, y2)"
      unfolding v v'
    proof (rule valid_concat_cong)
      fix i j assume "i \<in> set [nat y1..<nat y2]" "j \<in> set [nat x1..<nat x2]"
      then have i: "i < length D" using r by auto
      show "(valid_pixel (?D ! i ! j, C ! i ! j) \<longleftrightarrow> valid_pixel (D ! i ! j, C ! i ! j))
          \<and> (valid_pixel (D ! i ! j, C ! i ! j) \<longrightarrow> fst (?D ! i ! j, C ! i ! j) = fst (D ! i ! j, C ! i ! j))"
      proof (cases "i = y \<and> j = x")
        case True
        then show ?thesis using c by (simp add: valid_pixel_def)
      next
        case False
        have "?D ! i ! j = D ! i ! j"
        proof (cases "i = y")
          case True
          then have "j \<noteq> x" using False by simp
          then show ?thesis using True y by simp
        next
          case False
          then show ?thesis by simp
        qed
        then show ?thesis by simp
      qed
    qed
    then show ?thesis using b by (simp add: estimate_def cl Let_def)
  qed
qed

lemma boxes_loop_cong:
  "(\<And>box. estimate D' C' box = estimate D C box) \<Longrightarrow> boxes_loop D' C' boxes = boxes_loop D C boxes"
  by (induction boxes) (simp_all split: option.splits sum.splits prod.splits)

text \<open>
  Claim C4. A depth sample whose confidence is below the threshold takes part in no
  computation behind the validity test: preprocessing zeroes it and its entry of the
  validity mask is 0,
  and replacing the sample by any other value \<open>v\<close> changes neither the masked depth
  matrix, nor the estimate of any detection, nor anything the pass over the frame emits.
\<close>

theorem low_confidence_excluded:
  assumes "same_shape depth_buf confidence_buf"
    and "y < length depth_buf" and "x < length (depth_buf ! y)"
    and "confidence_buf ! y ! x < CONF_THR"
  shows "mask_assign depth_buf confidence_buf CONF_THR ! y ! x = 0
       \<and> conf_mask confidence_buf CONF_THR ! y ! x = 0
       \<and> mask_assign (depth_buf[y := (depth_buf ! y)[x := v]]) confidence_buf CONF_THR
           = mask_assign depth_buf confidence_buf CONF_THR
       \<and> estimate (depth_buf[y := (depth_buf ! y)[x := v]]) confidence_buf box
           = estimate depth_buf confidence_buf box
       \<and> frame_cycle E r \<lparr>depth_data = depth_buf[y := (depth_buf ! y)[x := v]],
                           confidence_data = confidence_buf\<rparr>
           = frame_cycle E r \<lparr>depth_data = depth_buf, confidence_data = confidence_buf\<rparr>"
proof -
  let ?D = "depth_buf[y := (depth_buf ! y)[x := v]]"
  have l: "length confidence_buf = length depth_buf"
    and rd: "\<forall>r \<in> set depth_buf. int (length r) = snd (shape depth_buf)"
    and rc: "\<forall>r \<in> set confidence_buf. int (length r) = snd (shape depth_buf)"
    using assms(1) by (simp_all add: same_shape_def)
  have "int (length (depth_buf ! y)) = snd (shape depth_buf)" using rd assms(2) by simp
  moreover have "int (length (confidence_buf ! y)) = snd (shape depth_buf)"
    using rc assms(2) l by simp
  ultimately have ly: "length (confidence_buf ! y) = length (depth_buf ! y)" by simp
  have 1: "mask_assign depth_buf confidence_buf CONF_THR ! y ! x = 0"
    using mask_assign_nth [OF l assms(2) ly assms(3), of CONF_THR] assms(4) by simp
  have 2: "conf_mask confidence_buf CONF_THR ! y ! x = 0"
    using conf_mask_nth [of y confidence_buf x CONF_THR] assms(2,3,4) l ly by simp
  have 3: "mask_assign ?D confidence_buf CONF_THR = mask_assign depth_buf confidence_buf CONF_THR"
    using assms(4) by (rule mask_assign_update)
  have 4: "estimate ?D confidence_buf b = estimate depth_buf confidence_buf b" for b
    using assms(1,4,2,3) by (rule estimate_update)
  have 5: "boxes_loop ?D confidence_buf bs = boxes_loop depth_buf confidence_buf bs" for bs
    by (rule boxes_loop_cong) (rule 4)
  show ?thesis using 1 2 3 4 5 by (simp add: frame_cycle_eq)
qed

theorem low_confidence_excluded_witness:
  "same_shape (depth_data mixed_frame) (confidence_data mixed_frame)
   \<and> (0::nat) < length (depth_data mixed_frame)
   \<and> (1::nat) < length (depth_data mixed_frame ! 0)
   \<and> confidence_data mixed_frame ! 0 ! 1 < CONF_THR
   \<and> mask_assign (depth_data mixed_frame) (confidence_data mixed_frame) CONF_THR ! 0 ! 1 = 0
   \<and> conf_mask (confidence_data mixed_frame) CONF_THR ! 0 ! 1 = 0
   \<and> mask_assign ((depth_data mixed_frame)[0 := (depth_data mixed_frame ! 0)[1 := 100]])
         (confidence_data mixed_frame) CONF_THR
       = mask_assign (depth_data mixed_frame) (confidence_data mixed_frame) CONF_THR
   \<and> estimate ((depth_data mixed_frame)[0 := (depth_data mixed_frame ! 0)[1 := 100]])
         (confidence_data mixed_frame) person_box
       = estimate (depth_data mixed_frame) (confidence_data mixed_frame) person_box
   \<and> frame_cycle person_ext 4000
         \<lparr>depth_data = (depth_data mixed_frame)[0 := (depth_data mixed_frame ! 0)[1 := 100]],
          confidence_data = confidence_data mixed_frame\<rparr>
       = frame_cycle person_ext 4000
           \<lparr>depth_data = depth_data mixed_frame, confidence_data = confidence_data mixed_frame\<rparr>"
proof -
  have s: "same_shape (depth_data mixed_frame) (confidence_data mixed_frame)" by code_simp
  have y: "(0::nat) < length (depth_data mixed_frame)" by code_simp
  have x: "(1::nat) < length (depth_data mixed_frame ! 0)" by code_simp
  have c: "confidence_data mixed_frame ! 0 ! 1 < CONF_THR" by code_simp
  show ?thesis
    using s y x c low_confidence_excluded [OF s y x c, of 100 person_box person_ext 4000]
    by simp
qed

end
